theory Spec2Isabelle
  imports Main "HOL-Library.Sublist" "HOL-Library.Word"
begin

unbundle bit_operations_syntax

section \<open>JavaScript values, errors and the HTTP boundary\<close>

text \<open>
  The client code (\<^verbatim>\<open>services/api.js\<close>, \<^verbatim>\<open>screens/CameraScreen.js\<close>,
  \<^verbatim>\<open>screens/ScanResultsScreen.js\<close>) handles values that come out of
  \<^verbatim>\<open>JSON.parse\<close>. They are modelled by one datatype. Numbers are integers (a JSON
  document cannot hold \<^verbatim>\<open>NaN\<close>; fractions are outside the model), objects are
  property lists with distinct keys, and \<open>JUndefined\<close> is what reading an absent
  property yields.
\<close>

datatype jsval =
    JUndefined
  | JNull
  | JBool bool
  | JNum int
  | JStr string
  | JArr "jsval list"
  | JObj "(string \<times> jsval) list"

text \<open>A thrown value: every throw of the modelled code is an \<^verbatim>\<open>Error\<close> object with a message.\<close>

datatype js_error = Error string | TypeError string | SyntaxError string

fun message :: "js_error \<Rightarrow> string" where
  "message (Error m) = m"
| "message (TypeError m) = m"
| "message (SyntaxError m) = m"

text \<open>Truthiness, as \<^verbatim>\<open>!v\<close>, \<^verbatim>\<open>a || b\<close> and \<^verbatim>\<open>a && b\<close> test it.\<close>

fun truthy :: "jsval \<Rightarrow> bool" where
  "truthy JUndefined = False"
| "truthy JNull = False"
| "truthy (JBool b) = b"
| "truthy (JNum n) = (n \<noteq> 0)"
| "truthy (JStr s) = (s \<noteq> [])"
| "truthy (JArr xs) = True"
| "truthy (JObj kvs) = True"

text \<open>
  Reading a property \<^verbatim>\<open>v.k\<close>. On \<^verbatim>\<open>undefined\<close> and \<^verbatim>\<open>null\<close> it throws a
  \<^verbatim>\<open>TypeError\<close> (the wording of its message is the engine's); on an object it is the
  property's value, \<^verbatim>\<open>undefined\<close> when absent; on the other values it is
  \<^verbatim>\<open>undefined\<close> for every property name the modelled code reads (none of them is
  \<^verbatim>\<open>length\<close> or a method of a prototype).
\<close>

fun get_prop :: "jsval \<Rightarrow> string \<Rightarrow> js_error + jsval" where
  "get_prop JUndefined k = Inl (TypeError (''Cannot read property '' @ k @ '' of undefined''))"
| "get_prop JNull k = Inl (TypeError (''Cannot read property '' @ k @ '' of null''))"
| "get_prop (JObj kvs) k = Inr (case map_of kvs k of None \<Rightarrow> JUndefined | Some v \<Rightarrow> v)"
| "get_prop v k = Inr JUndefined"

text \<open>
  Conversion to a string, as a template literal \<^verbatim>\<open>`${v}`\<close> and \<^verbatim>\<open>new Error(v)\<close> do
  it: a number in decimal, an array as its elements joined by commas (\<^verbatim>\<open>null\<close> and
  \<^verbatim>\<open>undefined\<close> elements as the empty string), an object as \<^verbatim>\<open>[object Object]\<close>.
\<close>

definition digit_char :: "nat \<Rightarrow> char" where
  "digit_char d = ''0123456789'' ! d"

fun show_nat :: "nat \<Rightarrow> string" where
  "show_nat n = (if n < 10 then [digit_char n] else show_nat (n div 10) @ [digit_char (n mod 10)])"

declare show_nat.simps [simp del]

definition show_int :: "int \<Rightarrow> string" where
  "show_int i = (if i < 0 then CHR ''-'' # show_nat (nat (- i)) else show_nat (nat i))"

fun join_comma :: "string list \<Rightarrow> string" where
  "join_comma [] = []"
| "join_comma [s] = s"
| "join_comma (s # t # ss) = s @ '','' @ join_comma (t # ss)"

fun js_to_string :: "jsval \<Rightarrow> string" where
  "js_to_string JUndefined = ''undefined''"
| "js_to_string JNull = ''null''"
| "js_to_string (JBool b) = (if b then ''true'' else ''false'')"
| "js_to_string (JNum n) = show_int n"
| "js_to_string (JStr s) = s"
| "js_to_string (JArr xs) =
     join_comma (map (\<lambda>x. if x = JUndefined \<or> x = JNull then [] else js_to_string x) xs)"
| "js_to_string (JObj kvs) = ''[object Object]''"

text \<open>\<^verbatim>\<open>s.includes(t)\<close> on strings: \<open>t\<close> occurs in \<open>s\<close> as a contiguous run.\<close>

definition includes_str :: "string \<Rightarrow> string \<Rightarrow> bool" where
  "includes_str s t = sublist t s"

text \<open>
  \<^verbatim>\<open>try { body } catch (error) { handler }\<close>: the handler runs on the thrown value and
  its outcome (a return or a new throw) is the outcome of the statement.
\<close>

definition try_catch :: "'e + 'a \<Rightarrow> ('e \<Rightarrow> 'e + 'a) \<Rightarrow> 'e + 'a" where
  "try_catch body handler = (case body of Inl error \<Rightarrow> handler error | Inr v \<Rightarrow> Inr v)"

text \<open>
  The multipart file part, the request handed to \<^verbatim>\<open>fetch\<close>, and the response it
  resolves with. \<open>body_json\<close> is the outcome of \<^verbatim>\<open>response.json()\<close>, which rejects on
  a body that is not JSON (\<^verbatim>\<open>response.text()\<close> is only ever logged and is left out).
  \<^verbatim>\<open>fetch\<close> itself is a parameter of the model: it either rejects (\<open>Inl\<close>, a
  network failure) or resolves with a response.
\<close>

record form_file =
  file_uri :: string
  file_name :: string
  file_type :: string

record request =
  url :: string
  http_method :: string
  headers :: "(string \<times> string) list"
  body :: "form_file option"
  timeout :: "nat option"

record response =
  ok :: bool
  status :: nat
  body_json :: "js_error + jsval"

type_synonym fetch = "request \<Rightarrow> js_error + response"

subsection \<open>\<^verbatim>\<open>services/api.js\<close>: configuration\<close>

definition LOCAL_URL :: string where
  "LOCAL_URL = ''http://192.168.1.5:8000''"

definition PRODUCTION_URL :: string where
  "PRODUCTION_URL = ''https://magic-scanner-backend-production.up.railway.app''"

definition USE_LOCAL :: bool where
  "USE_LOCAL = False"

definition getApiUrl :: string where
  "getApiUrl = (if USE_LOCAL then LOCAL_URL else PRODUCTION_URL)"

subsection \<open>\<^verbatim>\<open>testConnection\<close>\<close>

text \<open>
  \<^verbatim>\<open>
  export const testConnection = async () => {
    try {
      const apiUrl = getApiUrl();
      const response = await fetch(apiUrl, { method: 'GET',
        headers: { 'Accept': 'application/json' }, timeout: 5000 });
      return response.ok;
    } catch (error) {
      console.error('Connection test failed:', error);
      return false;
    }
  };
  \<close>
  The result type keeps the possibility of a throw (\<open>Inl\<close>), so that never raising is
  a theorem about the function and not a consequence of its type.
\<close>

definition testConnection_request :: request where
  "testConnection_request =
     \<lparr>url = getApiUrl, http_method = ''GET'',
      headers = [(''Accept'', ''application/json'')], body = None, timeout = Some 5000\<rparr>"

definition testConnection :: "fetch \<Rightarrow> js_error + bool" where
  "testConnection fetch =
     try_catch
       (case fetch testConnection_request of
          Inl rejected \<Rightarrow> Inl rejected
        | Inr response \<Rightarrow> Inr (ok response))
       (\<lambda>error. Inr False)"

subsection \<open>\<^verbatim>\<open>scanCards\<close>\<close>

text \<open>
  \<^verbatim>\<open>imageUri.split('/').pop()\<close> is the text after the last slash (the whole string when
  it has none). \<^verbatim>\<open>/\.(\w+)$/.exec(filename)\<close> matches when a dot is followed by one or
  more word characters up to the end of the string; a word character is not a dot, so
  the dot is the last one, and the group is the text after it.
\<close>

definition last_segment :: "char \<Rightarrow> string \<Rightarrow> string" where
  "last_segment sep s = rev (takeWhile (\<lambda>c. c \<noteq> sep) (rev s))"

definition word_char :: "char \<Rightarrow> bool" where
  "word_char c =
     (c \<in> set (''abcdefghijklmnopqrstuvwxyz'' @ ''ABCDEFGHIJKLMNOPQRSTUVWXYZ'' @ ''0123456789_''))"

definition extension_match :: "string \<Rightarrow> string option" where
  "extension_match filename =
     (let ext = last_segment CHR ''.'' filename
      in if CHR ''.'' \<in> set filename \<and> ext \<noteq> [] \<and> list_all word_char ext
         then Some ext else None)"

text \<open>
  \<^verbatim>\<open>
  export const scanCards = async (imageUri, scanMode = 'default') => {
    try {
      const apiUrl = getApiUrl();
      const formData = new FormData();
      const filename = imageUri.split('/').pop();
      const match = /\.(\w+)$/.exec(filename);
      const type = match ? `image/${match[1]}` : 'image/jpeg';
      formData.append('file', { uri: imageUri, name: filename || 'photo.jpg', type: type });
      const response = await fetch(`${apiUrl}/scan?scan_mode=${scanMode}`, {
        method: 'POST',
        headers: { 'Accept': 'application/json', 'Content-Type': 'multipart/form-data' },
        body: formData,
        timeout: 30000,
      });
      if (!response.ok) {
        const errorText = await response.text();
        throw new Error(`API request failed: ${response.status}`);
      }
      const data = await response.json();
      if (!data.success) {
        throw new Error(data.message || 'Scan failed');
      }
      return data;
    } catch (error) {
      if (error.message.includes('Network request failed')) {
        throw new Error('Network error - cannot connect to backend. Check your API URL.');
      } else if (error.message.includes('timeout')) {
        throw new Error('Request timeout - backend is taking too long to respond.');
      }
      throw error;
    }
  };
  \<close>
  The default value of the parameter applies when the argument is \<^verbatim>\<open>undefined\<close>
  (omitted), not when it is \<^verbatim>\<open>null\<close>.
\<close>

definition scanCards_request :: "string \<Rightarrow> jsval \<Rightarrow> request" where
  "scanCards_request imageUri scanModeArg =
     (let scanMode = (if scanModeArg = JUndefined then JStr ''default'' else scanModeArg);
          apiUrl = getApiUrl;
          filename = last_segment CHR ''/'' imageUri;
          type = (case extension_match filename of
                    Some ext \<Rightarrow> ''image/'' @ ext
                  | None \<Rightarrow> ''image/jpeg'')
      in \<lparr>url = apiUrl @ ''/scan?scan_mode='' @ js_to_string scanMode,
          http_method = ''POST'',
          headers = [(''Accept'', ''application/json''),
                     (''Content-Type'', ''multipart/form-data'')],
          body = Some \<lparr>file_uri = imageUri,
                       file_name = (if filename = [] then ''photo.jpg'' else filename),
                       file_type = type\<rparr>,
          timeout = Some 30000\<rparr>)"

definition scanCards_rethrow :: "js_error \<Rightarrow> js_error + jsval" where
  "scanCards_rethrow error =
     (if includes_str (message error) ''Network request failed''
      then Inl (Error ''Network error - cannot connect to backend. Check your API URL.'')
      else if includes_str (message error) ''timeout''
      then Inl (Error ''Request timeout - backend is taking too long to respond.'')
      else Inl error)"

definition scanCards :: "fetch \<Rightarrow> string \<Rightarrow> jsval \<Rightarrow> js_error + jsval" where
  "scanCards fetch imageUri scanMode =
     try_catch
       (case fetch (scanCards_request imageUri scanMode) of
          Inl rejected \<Rightarrow> Inl rejected
        | Inr response \<Rightarrow>
            if \<not> ok response
            then Inl (Error (''API request failed: '' @ show_nat (status response)))
            else
              (case body_json response of
                 Inl unparsable \<Rightarrow> Inl unparsable
               | Inr data \<Rightarrow>
                   (case get_prop data ''success'' of
                      Inl e \<Rightarrow> Inl e
                    | Inr success \<Rightarrow>
                        if \<not> truthy success
                        then
                          (case get_prop data ''message'' of
                             Inl e \<Rightarrow> Inl e
                           | Inr m \<Rightarrow>
                               Inl (Error (if truthy m then js_to_string m else ''Scan failed'')))
                        else Inr data)))
       scanCards_rethrow"




text \<open>
  The condition under which the specification has \<^verbatim>\<open>scanCards\<close> raise: \<^verbatim>\<open>fetch\<close>
  resolved with a response, and the response is not ok or its body has \<^verbatim>\<open>success\<close>
  equal to \<^verbatim>\<open>false\<close>.
\<close>

definition success_is_false :: "response \<Rightarrow> bool" where
  "success_is_false r =
     (case body_json r of
        Inl unparsable \<Rightarrow> False
      | Inr data \<Rightarrow> get_prop data ''success'' = Inr (JBool False))"

definition claimed_raise_condition :: "js_error + response \<Rightarrow> bool" where
  "claimed_raise_condition outcome =
     (case outcome of
        Inl rejected \<Rightarrow> False
      | Inr r \<Rightarrow> \<not> ok r \<or> success_is_false r)"

text \<open>
  Two outcomes of \<^verbatim>\<open>fetch\<close> for the examples: a response with status 200 whose body is
  a JSON object with no \<^verbatim>\<open>success\<close> property, and the rejection React Native's
  \<^verbatim>\<open>fetch\<close> gives when the backend cannot be reached.
\<close>

definition network_failure :: js_error where
  "network_failure = TypeError ''Network request failed''"

definition ok_without_success :: response where
  "ok_without_success =
     \<lparr>ok = True, status = 200,
      body_json = Inr (JObj [(''cards_found'', JNum 0), (''cards'', JArr [])])\<rparr>"

text \<open>
  Reading a property where no throw can happen: \<^verbatim>\<open>renderCard\<close> reads this way a
  value already known to be neither \<^verbatim>\<open>null\<close> nor \<^verbatim>\<open>undefined\<close> (an earlier read
  of it succeeded). On \<^verbatim>\<open>null\<close> and \<^verbatim>\<open>undefined\<close> themselves the result here is
  \<^verbatim>\<open>undefined\<close>.
\<close>

definition read_prop :: "jsval \<Rightarrow> string \<Rightarrow> jsval" where
  "read_prop v k = (case get_prop v k of Inl e \<Rightarrow> JUndefined | Inr x \<Rightarrow> x)"

text \<open>
  What the specification calls a self-consistent ScanResult, read on a response body:
  \<^verbatim>\<open>cards\<close> is an array, \<^verbatim>\<open>cards_found\<close> is its length and \<^verbatim>\<open>cards_matched\<close> is the
  number of its cards whose \<^verbatim>\<open>matched\<close> is set.
\<close>

definition self_consistent_scan_result :: "jsval \<Rightarrow> bool" where
  "self_consistent_scan_result data =
     (case (read_prop data ''cards_found'', read_prop data ''cards_matched'',
            read_prop data ''cards'') of
        (JNum found, JNum matched_count, JArr cs) \<Rightarrow>
          found = int (length cs)
          \<and> matched_count = int (length (filter (\<lambda>c. truthy (read_prop c ''matched'')) cs))
      | other \<Rightarrow> False)"

text \<open>
  A response with status 200 whose body announces success, three cards found and five
  matched, and lists no card.
\<close>

definition inconsistent_body :: jsval where
  "inconsistent_body =
     JObj [(''success'', JBool True), (''cards_found'', JNum 3), (''cards_matched'', JNum 5),
           (''cards'', JArr [])]"

definition ok_inconsistent :: response where
  "ok_inconsistent = \<lparr>ok = True, status = 200, body_json = Inr inconsistent_body\<rparr>"

subsection \<open>\<^verbatim>\<open>screens/CameraScreen.js\<close>: the scan-mode toggle\<close>

text \<open>
  \<^verbatim>\<open>
  const [isProcessing, setIsProcessing] = useState(false);
  const [scanMode, setScanMode] = useState('default'); // 'default' or 'pro'
  ...
  <TouchableOpacity onPress={() => setScanMode('default')} disabled={isProcessing}>
  <TouchableOpacity onPress={() => setScanMode('pro')} disabled={isProcessing}>
  ...
  const results = await scanCards(imageUri, scanMode);     // in processImage
  \<close>
  The component's state and the events that change it: the two toggle buttons (dead
  while an image is being processed), and the start and end of processing.
\<close>

record camera_state =
  scanMode :: string
  isProcessing :: bool






subsection \<open>\<^verbatim>\<open>screens/ScanResultsScreen.js\<close>\<close>

text \<open>
  \<^verbatim>\<open>
  const [selectedCards, setSelectedCards] = useState([]);

  const toggleCardSelection = (cardNumber) => {
    setSelectedCards(prev =>
      prev.includes(cardNumber)
        ? prev.filter(n => n !== cardNumber)
        : [...prev, cardNumber]
    );
  };
  \<close>
  The state is the list \<open>prev\<close>; the function below is the updater handed to
  \<^verbatim>\<open>setSelectedCards\<close>, so its result is the next state. \<^verbatim>\<open>includes\<close> and \<^verbatim>\<open>!==\<close>
  agree with equality on the numbers and strings of a parsed JSON document (it cannot
  hold \<^verbatim>\<open>NaN\<close>); the card numbers of the backend are integers.
\<close>

definition toggleCardSelection :: "'a \<Rightarrow> 'a list \<Rightarrow> 'a list" where
  "toggleCardSelection cardNumber prev =
     (if cardNumber \<in> set prev
      then filter (\<lambda>n. n \<noteq> cardNumber) prev
      else prev @ [cardNumber])"

text \<open>
  \<^verbatim>\<open>v.toUpperCase()\<close>: the upper-case string when \<open>v\<close> is a string (ASCII letters; the
  set codes and rarities of the catalog are ASCII), a \<^verbatim>\<open>TypeError\<close> otherwise, since
  \<^verbatim>\<open>undefined\<close> and \<^verbatim>\<open>null\<close> have no properties and no other value has this method.
\<close>

definition upper_char :: "char \<Rightarrow> char" where
  "upper_char c =
     (case map_of (zip ''abcdefghijklmnopqrstuvwxyz'' ''ABCDEFGHIJKLMNOPQRSTUVWXYZ'') c of
        Some u \<Rightarrow> u
      | None \<Rightarrow> c)"

fun toUpperCase :: "jsval \<Rightarrow> js_error + string" where
  "toUpperCase (JStr s) = Inr (map upper_char s)"
| "toUpperCase JUndefined = Inl (TypeError ''Cannot read property toUpperCase of undefined'')"
| "toUpperCase JNull = Inl (TypeError ''Cannot read property toUpperCase of null'')"
| "toUpperCase v = Inl (TypeError ''toUpperCase is not a function'')"

text \<open>\<^verbatim>\<open>{v && <Element/>}\<close>: the element is created only when \<open>v\<close> is truthy.\<close>

definition guarded :: "jsval \<Rightarrow> jsval option" where
  "guarded v = (if truthy v then Some v else None)"

text \<open>
  What \<^verbatim>\<open>renderCard\<close> builds, without the styling: for an unmatched card the
  placeholder with its number; for a matched card the pressable tile with its
  selection mark, the optional image, the name, the set line, the optional collector
  number, rarity badge and price section, the confidence bar, and the link target.
\<close>

record price_view =
  usd_text :: "jsval option"
  eur_text :: "jsval option"
  tix_text :: "jsval option"

record matched_view =
  key :: jsval
  selected :: bool
  image_uri :: "jsval option"
  name_text :: jsval
  set_text :: jsval
  set_code_text :: string
  collector_text :: "jsval option"
  rarity_text :: "string option"
  prices_view :: "price_view option"
  confidence_text :: jsval
  confidence_width :: string
  scryfall_target :: jsval

datatype card_view = UnmatchedView jsval | MatchedView matched_view

text \<open>
  \<^verbatim>\<open>
  const renderCard = (card) => {
    const isSelected = selectedCards.includes(card.card_number);
    if (!card.matched) {
      return ( <View key={card.card_number} ...>
                 ... Card #{card.card_number} could not be identified ... </View> );
    }
    return (
      <TouchableOpacity key={card.card_number}
          style={[styles.cardContainer, isSelected && styles.cardSelected]}
          onPress={() => toggleCardSelection(card.card_number)}>
        ... {isSelected && ( <MaterialIcons name="check-circle" .../> )} ...
        {card.image_url && ( <Image source={{ uri: card.image_url }} .../> )}
        ... <Text style={styles.cardName}>{card.name}</Text>
            <Text style={styles.cardSet}>{card.set} ({card.set_code.toUpperCase()})</Text>
            {card.collector_number && ( <Text ...>#{card.collector_number}</Text> )}
        {card.rarity && ( ... <Text ...>{card.rarity.toUpperCase()}</Text> ... )}
        {card.prices && ( ...
            {card.prices.usd && ( <Text ...>${card.prices.usd}</Text> )}
            {card.prices.eur && ( <Text ...>{card.prices.eur}</Text> )}
            {card.prices.tix && ( <Text ...>{card.prices.tix} tix</Text> )} ... )}
        ... Match Confidence: {card.confidence}% ...
            <View style={[styles.confidenceBarFill, { width: `${card.confidence}%` }]} />
        <TouchableOpacity ... onPress={() => openScryfall(card.scryfall_uri)}> ...
      </TouchableOpacity> );
  };
  \<close>
  The reads happen in this order, so a card (\<open>crd\<close> below) that is \<^verbatim>\<open>null\<close> throws at
  \<^verbatim>\<open>card.card_number\<close>, and for a card that is not, the only calls that can throw are
  the two \<^verbatim>\<open>toUpperCase()\<close>, the one on \<^verbatim>\<open>set_code\<close> first.
\<close>

definition renderCard :: "jsval list \<Rightarrow> jsval \<Rightarrow> js_error + card_view" where
  "renderCard selectedCards crd =
     (case get_prop crd ''card_number'' of
        Inl e \<Rightarrow> Inl e
      | Inr card_number \<Rightarrow>
          (let isSelected = (card_number \<in> set selectedCards) in
           if \<not> truthy (read_prop crd ''matched'') then Inr (UnmatchedView card_number)
           else
             (case toUpperCase (read_prop crd ''set_code'') of
                Inl e \<Rightarrow> Inl e
              | Inr set_code_upper \<Rightarrow>
                  (case (if truthy (read_prop crd ''rarity'')
                         then map_sum id Some (toUpperCase (read_prop crd ''rarity''))
                         else Inr None) of
                     Inl e \<Rightarrow> Inl e
                   | Inr rarity_badge \<Rightarrow>
                       Inr (MatchedView
                         \<lparr>key = card_number,
                          selected = isSelected,
                          image_uri = guarded (read_prop crd ''image_url''),
                          name_text = read_prop crd ''name'',
                          set_text = read_prop crd ''set'',
                          set_code_text = set_code_upper,
                          collector_text = guarded (read_prop crd ''collector_number''),
                          rarity_text = rarity_badge,
                          prices_view =
                            (if truthy (read_prop crd ''prices'')
                             then Some
                               \<lparr>usd_text = guarded (read_prop (read_prop crd ''prices'') ''usd''),
                                eur_text = guarded (read_prop (read_prop crd ''prices'') ''eur''),
                                tix_text = guarded (read_prop (read_prop crd ''prices'') ''tix'')\<rparr>
                             else None),
                          confidence_text = read_prop crd ''confidence'',
                          confidence_width = js_to_string (read_prop crd ''confidence'') @ ''%'',
                          scryfall_target = read_prop crd ''scryfall_uri''\<rparr>)))))"

text \<open>
  Two cards for the examples: a matched card that has a \<^verbatim>\<open>set_code\<close> and none of
  the optional fields, and the same card without its \<^verbatim>\<open>set_code\<close>.
\<close>

definition matched_card_example :: jsval where
  "matched_card_example =
     JObj [(''card_number'', JNum 1), (''matched'', JBool True), (''confidence'', JNum 95),
           (''name'', JStr ''Lightning Bolt''), (''set'', JStr ''Alpha''),
           (''set_code'', JStr ''lea'')]"

definition matched_card_without_set_code :: jsval where
  "matched_card_without_set_code =
     JObj [(''card_number'', JNum 1), (''matched'', JBool True), (''confidence'', JNum 95),
           (''name'', JStr ''Lightning Bolt''), (''set'', JStr ''Alpha'')]"

section \<open>The card recognition pipeline\<close>

text \<open>
  The backend that runs the pipeline (\<^verbatim>\<open>main.py\<close>, \<^verbatim>\<open>card_detection.py\<close>,
  \<^verbatim>\<open>card_matching.py\<close>, \<^verbatim>\<open>scryfall_integration.py\<close>) is not among the source files:
  only its client and its README are. Every definition of this section is therefore
  written from the specification, and says so.
\<close>

text \<open>
  Modelled from the spec: the Fingerprint of section 3, "a fixed-length bit vector", of
  the length section 4.3 gives as its example (64 bits). The Fingerprint Engine's code
  is missing.
\<close>

type_synonym fingerprint = "64 word"

text \<open>
  Modelled from the spec: the fixed fingerprint length, 64 bits in the example of
  section 4.3. The Fingerprint Engine's code is missing.
\<close>

definition fingerprint_bits :: nat where
  "fingerprint_bits = 64"

text \<open>
  Modelled from the spec: the Hamming distance of the glossary, the "count of differing
  bit positions between two equal-length bit vectors". The Matcher's code is missing.
\<close>

definition hamming :: "fingerprint \<Rightarrow> fingerprint \<Rightarrow> nat" where
  "hamming a b = length (filter (bit (a XOR b)) [0..<fingerprint_bits])"

text \<open>
  Modelled from the spec: the ReferenceRecord of section 3, "{identity (opaque catalog
  id), fingerprint, display name, set code, rarity}". The Reference Index and its
  loader are missing.
\<close>

record reference_record =
  identity :: string
  ref_fingerprint :: fingerprint
  display_name :: string
  ref_set_code :: string
  ref_rarity :: string

text \<open>
  Modelled from the spec: the two configured values of section 4.4, the "configured
  maximum acceptable distance" and the "configured minimum confidence". The Matcher's
  configuration is missing.
\<close>

record match_config =
  max_distance :: nat
  min_confidence :: int

text \<open>
  Modelled from the spec: the confidence mapping of section 4.4, "confidence = 100 at
  distance 0, decreasing to 0 at or beyond a configured maximum acceptable distance",
  an integer between 0 and 100 (section 6). The specification gives the two ends and
  the direction only, and no formula; the mapping here is one that fits them, the
  straight line between the two ends, rounded down. The Matcher's code is missing.
\<close>

definition confidence_of :: "match_config \<Rightarrow> nat \<Rightarrow> int" where
  "confidence_of cfg d =
     (if max_distance cfg \<le> d then 0
      else (100 * int (max_distance cfg - d)) div int (max_distance cfg))"

text \<open>
  Modelled from the spec: the MatchResult of section 3, "{region index, matched: bool,
  identity?, confidence: 0-100, distance}". The record found stands for the identity
  (it is there exactly when the result is matched: section 8, scenario 3, "matched=false,
  no catalog id"), and the distance is absent when no comparison was made. The
  Matcher's code is missing.
\<close>

record match_result =
  region_index :: nat
  matched :: bool
  reference :: "reference_record option"
  confidence :: int
  distance :: "nat option"

text \<open>
  Modelled from the spec: the Matcher of section 4.4, an "exhaustive nearest-neighbor
  search over the index" that returns "the ReferenceRecord with minimum Hamming
  distance, plus that distance"; among records at the same distance the first in the
  index's order is returned (the tie-break section 4.4 gives as its example). The
  Matcher's code is missing.
\<close>

fun nearest :: "reference_record list \<Rightarrow> fingerprint \<Rightarrow> (reference_record \<times> nat) option" where
  "nearest [] q = None"
| "nearest (r # rs) q =
     (case nearest rs q of
        None \<Rightarrow> Some (r, hamming (ref_fingerprint r) q)
      | Some (r', d') \<Rightarrow>
          if hamming (ref_fingerprint r) q \<le> d' then Some (r, hamming (ref_fingerprint r) q)
          else Some (r', d'))"

text \<open>
  Modelled from the spec: the result for a region that was not identified and for
  which no comparison was made (a region with no fingerprint, section 4.6, or an empty
  index): unmatched, with no identity. The Matcher's code is missing.
\<close>

definition unmatched_result :: "nat \<Rightarrow> match_result" where
  "unmatched_result i =
     \<lparr>region_index = i, matched = False, reference = None, confidence = 0, distance = None\<rparr>"

text \<open>
  Modelled from the spec: the result of the Matcher for one region (section 4.4): the
  confidence derived from the distance, and "below a configured minimum confidence,
  the result is reported as unmatched (matched=false) even though a nearest record
  technically exists"; a nearest record beyond the maximum acceptable distance is
  unmatched too (section 8, scenario 3). The Matcher's code is missing.
\<close>

definition match_fingerprint ::
  "match_config \<Rightarrow> reference_record list \<Rightarrow> nat \<Rightarrow> fingerprint \<Rightarrow> match_result" where
  "match_fingerprint cfg index i q =
     (case nearest index q of
        None \<Rightarrow> unmatched_result i
      | Some (r, d) \<Rightarrow>
          (let c = confidence_of cfg d;
               m = (d \<le> max_distance cfg \<and> min_confidence cfg \<le> c)
           in \<lparr>region_index = i, matched = m,
               reference = (if m then Some r else None),
               confidence = c, distance = Some d\<rparr>))"

text \<open>
  Modelled from the spec: the price fields of section 6, "prices?: { usd?, usd_foil?,
  eur?, tix? }". The Enrichment Client's code is missing.
\<close>

record prices =
  usd :: "string option"
  usd_foil :: "string option"
  eur :: "string option"
  tix :: "string option"

text \<open>
  Modelled from the spec: the live metadata the external catalog returns (section 4.5:
  "prices, canonical image, catalog URI"). The Enrichment Client's code is missing.
\<close>

record live_metadata =
  live_prices :: prices
  live_image_url :: "string option"
  live_catalog_uri :: "string option"

text \<open>
  Modelled from the spec: the outcome of one enrichment call, which can fail or time out
  (sections 4.5 and 5). The Enrichment Client's code is missing.
\<close>

datatype enrichment_outcome =
    EnrichmentFailed
  | EnrichmentTimedOut
  | Enriched live_metadata

text \<open>
  Modelled from the spec: the EnrichedCard of section 3, "MatchResult plus optionally
  {price fields, canonical image URL, catalog URI}", with the 1-based
  \<^verbatim>\<open>card_number\<close> of section 6 and the name, set code and rarity that section 4.5
  carries "from the ReferenceRecord itself, independent of live enrichment". The
  Orchestrator's code is missing.
\<close>

record enriched_card =
  card_number :: nat
  result :: match_result
  card_name :: "string option"
  card_set_code :: "string option"
  card_rarity :: "string option"
  card_prices :: "prices option"
  card_image_url :: "string option"
  card_catalog_uri :: "string option"

text \<open>
  Modelled from the spec: the external catalog (section 6), a parameter: what the
  service answers to the call made for a region with an identity. The catalog is an
  external collaborator and the Enrichment Client's code is missing.
\<close>

type_synonym catalog = "nat \<Rightarrow> string \<Rightarrow> enrichment_outcome"

text \<open>
  Modelled from the spec: the Enrichment Client's contract and failure semantics
  (section 4.5). A matched result is looked up in the catalog by its identity; "a failed
  or timed-out enrichment call does not fail the match": the card keeps the static
  data of its ReferenceRecord and has no live price. An unmatched result is not looked
  up. The Enrichment Client's code is missing.
\<close>

definition enrich :: "catalog \<Rightarrow> match_result \<Rightarrow> enriched_card" where
  "enrich cat m =
     (case reference m of
        None \<Rightarrow>
          \<lparr>card_number = region_index m + 1, result = m,
           card_name = None, card_set_code = None, card_rarity = None,
           card_prices = None, card_image_url = None, card_catalog_uri = None\<rparr>
      | Some r \<Rightarrow>
          (case cat (region_index m) (identity r) of
             Enriched live \<Rightarrow>
               \<lparr>card_number = region_index m + 1, result = m,
                card_name = Some (display_name r), card_set_code = Some (ref_set_code r),
                card_rarity = Some (ref_rarity r),
                card_prices = Some (live_prices live),
                card_image_url = live_image_url live,
                card_catalog_uri = live_catalog_uri live\<rparr>
           | unavailable \<Rightarrow>
               \<lparr>card_number = region_index m + 1, result = m,
                card_name = Some (display_name r), card_set_code = Some (ref_set_code r),
                card_rarity = Some (ref_rarity r),
                card_prices = None, card_image_url = None, card_catalog_uri = None\<rparr>))"

text \<open>
  Modelled from the spec: the stages before the Matcher (sections 4.1 to 4.3), as
  parameters, since they are image processing: whether the image is well formed
  (section 7, input errors), the Region Detector (the CandidateRegions in detection
  order), the Region Rectifier (no RectifiedCard for a degenerate quadrilateral) and
  the Fingerprint Engine (which can fail for a region, section 4.6). Their code is
  missing.
\<close>

record ('img, 'region, 'rect) vision =
  valid_image :: "'img \<Rightarrow> bool"
  detect :: "'img \<Rightarrow> 'region list"
  rectify :: "'img \<Rightarrow> 'region \<Rightarrow> 'rect option"
  fingerprint_of :: "'rect \<Rightarrow> fingerprint option"

text \<open>
  Modelled from the spec: rectification, then fingerprinting, of one region (section 2,
  data flow); a region that fails either has no fingerprint. The Orchestrator's code is
  missing.
\<close>

definition region_fingerprint ::
  "('img, 'region, 'rect) vision \<Rightarrow> 'img \<Rightarrow> 'region \<Rightarrow> fingerprint option" where
  "region_fingerprint vis img region =
     (case rectify vis img region of
        None \<Rightarrow> None
      | Some rect \<Rightarrow> fingerprint_of vis rect)"

text \<open>
  Modelled from the spec: the two policies sections 4.2 and 9 leave open for a region
  that fails rectification or fingerprinting: it "IS counted in cards_found as
  unmatched, OR excluded entirely from cards_found". The Orchestrator's code is
  missing.
\<close>

datatype failed_region_policy = CountAsUnmatched | ExcludeFromFound

text \<open>
  Modelled from the spec: the regions the Orchestrator goes on with (section 4.6,
  "every surviving region"), each with its fingerprint if it has one, in detection
  order: all of them, or those that have a fingerprint, by the policy. The
  Orchestrator's code is missing.
\<close>

definition surviving_regions ::
  "('img, 'region, 'rect) vision \<Rightarrow> failed_region_policy \<Rightarrow> 'img \<Rightarrow> fingerprint option list" where
  "surviving_regions vis policy img =
     (let fps = map (region_fingerprint vis img) (detect vis img)
      in case policy of
           CountAsUnmatched \<Rightarrow> fps
         | ExcludeFromFound \<Rightarrow> filter (\<lambda>fp. fp \<noteq> None) fps)"

text \<open>
  Modelled from the spec: the ScanResult of sections 3 and 6, "{cards_found: count of
  CandidateRegions, cards_matched: count of MatchResults with matched=true, cards:
  ordered sequence of EnrichedCard in detection order}". The Orchestrator's code is
  missing.
\<close>

record scan_result =
  success :: bool
  cards_found :: nat
  cards_matched :: nat
  cards :: "enriched_card list"

text \<open>
  Modelled from the spec: the request-level failure of section 7 for a malformed or
  empty image. (What the pipeline does with no Reference Index loaded is outside the
  model: the pipeline below is given a loaded index.) The Orchestrator's code is
  missing.
\<close>

datatype pipeline_error = InputError

text \<open>
  Modelled from the spec: the MatchResults of the surviving regions, in detection
  order, region \<open>i\<close> counted from 0 (section 3: the region index is "in [0,
  cards_found)"). The Orchestrator's code is missing.
\<close>

definition region_results ::
  "match_config \<Rightarrow> reference_record list \<Rightarrow> fingerprint option list \<Rightarrow> match_result list" where
  "region_results cfg index fps =
     map (\<lambda>(i, fp). case fp of
                      None \<Rightarrow> unmatched_result i
                    | Some q \<Rightarrow> match_fingerprint cfg index i q)
         (enumerate 0 fps)"

text \<open>
  Modelled from the spec: the Pipeline Orchestrator of section 4.6, with a Reference
  Index loaded: it "executes detection, rectification, fingerprinting, matching, and
  enrichment for every surviving region and returns one ScanResult", the cards in
  detection order. The Orchestrator's code is missing.
\<close>

definition scan_pipeline ::
  "('img, 'region, 'rect) vision \<Rightarrow> match_config \<Rightarrow> failed_region_policy \<Rightarrow>
   reference_record list \<Rightarrow> catalog \<Rightarrow> 'img \<Rightarrow> pipeline_error + scan_result" where
  "scan_pipeline vis cfg policy index cat img =
     (if \<not> valid_image vis img then Inl InputError
      else
        (let regions = surviving_regions vis policy img;
             results = region_results cfg index regions
         in Inr \<lparr>success = True,
                 cards_found = length regions,
                 cards_matched = length (filter matched results),
                 cards = map (enrich cat) results\<rparr>))"

text \<open>
  An instance of the parameters, for the examples: an image is the list of its
  regions (or malformed), a region is a number, the region 0 is degenerate, and the
  fingerprint of a region is its number; an index of two records; a configuration
  with maximum distance 10 and minimum confidence 60, one with maximum distance 0 and
  one with maximum distance 200; a catalog that cannot be reached.
\<close>

definition example_vision :: "(nat list option, nat, nat) vision" where
  "example_vision =
     \<lparr>valid_image = (\<lambda>img. img \<noteq> None),
      detect = (\<lambda>img. case img of None \<Rightarrow> [] | Some regions \<Rightarrow> regions),
      rectify = (\<lambda>img region. if region = 0 then None else Some region),
      fingerprint_of = (\<lambda>rect. Some (of_nat rect))\<rparr>"

definition example_config :: match_config where
  "example_config = \<lparr>max_distance = 10, min_confidence = 60\<rparr>"



definition example_index :: "reference_record list" where
  "example_index =
     [\<lparr>identity = ''bolt-lea'', ref_fingerprint = 15, display_name = ''Lightning Bolt'',
       ref_set_code = ''lea'', ref_rarity = ''common''\<rparr>,
      \<lparr>identity = ''counterspell-lea'', ref_fingerprint = 240,
       display_name = ''Counterspell'', ref_set_code = ''lea'', ref_rarity = ''uncommon''\<rparr>]"

definition unreachable_catalog :: catalog where
  "unreachable_catalog = (\<lambda>i ident. EnrichmentFailed)"

definition example_image :: "nat list option" where
  "example_image = Some [15, 0, 14, 16776960]"

section \<open>Properties of \<^verbatim>\<open>services/api.js\<close>\<close>

text \<open>
  Claim C10. \<^verbatim>\<open>testConnection\<close> never raises: for every behaviour of \<^verbatim>\<open>fetch\<close> it
  returns a boolean. The boolean is \<open>True\<close> exactly when the request to the backend
  root resolved with a response whose \<^verbatim>\<open>ok\<close> flag is set, and it is \<open>False\<close> whenever
  \<^verbatim>\<open>fetch\<close> threw (network failure, timeout): the error is absorbed.
\<close>

theorem testConnection_total:
  "(\<exists>b. testConnection fetch = Inr b)
   \<and> (testConnection fetch = Inr True
        \<longleftrightarrow> (\<exists>r. fetch testConnection_request = Inr r \<and> ok r))
   \<and> (\<forall>e. fetch testConnection_request = Inl e \<longrightarrow> testConnection fetch = Inr False)
   \<and> url testConnection_request = getApiUrl"
  by (cases "fetch testConnection_request")
     (auto simp: testConnection_def try_catch_def testConnection_request_def)

theorem testConnection_total_witness:
  "testConnection (\<lambda>r. Inl (TypeError ''Network request failed'')) = Inr False
   \<and> testConnection
        (\<lambda>r. Inr \<lparr>ok = True, status = 200, body_json = Inr JNull\<rparr>) = Inr True
   \<and> testConnection
        (\<lambda>r. Inr \<lparr>ok = False, status = 503, body_json = Inr JNull\<rparr>) = Inr False"
  using testConnection_total [of "\<lambda>r. Inl (TypeError ''Network request failed'')"]
        testConnection_total
          [of "\<lambda>r. Inr \<lparr>ok = True, status = 200, body_json = Inr JNull\<rparr>"]
        testConnection_total
          [of "\<lambda>r. Inr \<lparr>ok = False, status = 503, body_json = Inr JNull\<rparr>"]
  by (simp add: testConnection_def try_catch_def)









lemma scanCards_rethrow_raises: "isl (scanCards_rethrow e)"
  by (simp add: scanCards_rethrow_def)

lemma scanCards_returns_only_body:
  "scanCards fetch imageUri mode = Inr v \<Longrightarrow>
     \<exists>response. fetch (scanCards_request imageUri mode) = Inr response \<and> ok response
        \<and> body_json response = Inr v \<and> truthy (read_prop v ''success'')"
  by (auto simp: scanCards_def try_catch_def scanCards_rethrow_def read_prop_def
           split: sum.splits if_splits)

text \<open>
  Claim C4, as the code has it. \<^verbatim>\<open>scanCards\<close> raises exactly when \<^verbatim>\<open>fetch\<close> rejects,
  or the response is not ok, or its body is not JSON, or the parsed body is
  \<^verbatim>\<open>null\<close>, or the body's \<^verbatim>\<open>success\<close> is falsy (\<^verbatim>\<open>false\<close>, absent, \<^verbatim>\<open>null\<close>,
  \<^verbatim>\<open>0\<close>, the empty string). For a response that is ok and whose body has a truthy
  \<^verbatim>\<open>success\<close> it returns the parsed body unchanged, and whatever it returns is such a
  body: the parsed body of an ok response, with a truthy \<^verbatim>\<open>success\<close>, as the backend
  sent it. A response that is not ok, or whose body has \<^verbatim>\<open>success\<close> equal to
  \<^verbatim>\<open>false\<close>, always makes it raise (the "if" direction of the specification's
  condition). So the caller sees either the backend's own successful body, which
  \<^verbatim>\<open>scanCards\<close> does not check further, or one top-level failure.
\<close>

theorem scanCards_raises_iff:
  "(isl (scanCards fetch imageUri mode) \<longleftrightarrow>
      (case fetch (scanCards_request imageUri mode) of
         Inl rejected \<Rightarrow> True
       | Inr response \<Rightarrow>
           \<not> ok response
           \<or> (case body_json response of
                Inl unparsable \<Rightarrow> True
              | Inr data \<Rightarrow>
                  (case get_prop data ''success'' of
                     Inl e \<Rightarrow> True
                   | Inr flag \<Rightarrow> \<not> truthy flag))))
   \<and> (\<forall>response data flag.
         fetch (scanCards_request imageUri mode) = Inr response
         \<and> ok response \<and> body_json response = Inr data
         \<and> get_prop data ''success'' = Inr flag \<and> truthy flag
         \<longrightarrow> scanCards fetch imageUri mode = Inr data)
   \<and> (claimed_raise_condition (fetch (scanCards_request imageUri mode))
         \<longrightarrow> isl (scanCards fetch imageUri mode))
   \<and> (\<forall>v. scanCards fetch imageUri mode = Inr v \<longrightarrow>
         (\<exists>response. fetch (scanCards_request imageUri mode) = Inr response \<and> ok response
            \<and> body_json response = Inr v \<and> truthy (read_prop v ''success'')))"
proof -
  have a: "isl (scanCards fetch imageUri mode) \<longleftrightarrow>
      (case fetch (scanCards_request imageUri mode) of
         Inl rejected \<Rightarrow> True
       | Inr response \<Rightarrow>
           \<not> ok response
           \<or> (case body_json response of
                Inl unparsable \<Rightarrow> True
              | Inr data \<Rightarrow>
                  (case get_prop data ''success'' of
                     Inl e \<Rightarrow> True
                   | Inr flag \<Rightarrow> \<not> truthy flag)))"
    by (auto simp: scanCards_def try_catch_def scanCards_rethrow_raises split: sum.splits)
  have b: "\<forall>response data flag.
         fetch (scanCards_request imageUri mode) = Inr response
         \<and> ok response \<and> body_json response = Inr data
         \<and> get_prop data ''success'' = Inr flag \<and> truthy flag
         \<longrightarrow> scanCards fetch imageUri mode = Inr data"
    by (auto simp: scanCards_def try_catch_def)
  have c: "claimed_raise_condition (fetch (scanCards_request imageUri mode))
         \<longrightarrow> isl (scanCards fetch imageUri mode)"
    by (auto simp: scanCards_def try_catch_def scanCards_rethrow_raises success_is_false_def
           claimed_raise_condition_def
           split: sum.splits)
  from a b c scanCards_returns_only_body [of fetch imageUri mode] show ?thesis by blast
qed

theorem scanCards_raises_iff_witness:
  "scanCards
     (\<lambda>req. Inr \<lparr>ok = True, status = 200,
                  body_json = Inr (JObj [(''success'', JBool True), (''cards_found'', JNum 0),
                                         (''cards_matched'', JNum 0), (''cards'', JArr [])])\<rparr>)
     ''file:///cache/photo.jpg'' (JStr ''pro'')
   = Inr (JObj [(''success'', JBool True), (''cards_found'', JNum 0),
                (''cards_matched'', JNum 0), (''cards'', JArr [])])
   \<and> isl (scanCards
            (\<lambda>req. Inr \<lparr>ok = False, status = 503, body_json = Inr (JObj [])\<rparr>)
            ''file:///cache/photo.jpg'' (JStr ''pro''))"
  using scanCards_raises_iff
          [of "\<lambda>req. Inr \<lparr>ok = True, status = 200,
                  body_json = Inr (JObj [(''success'', JBool True), (''cards_found'', JNum 0),
                                         (''cards_matched'', JNum 0), (''cards'', JArr [])])\<rparr>"
              "''file:///cache/photo.jpg''" "JStr ''pro''"]
        scanCards_raises_iff
          [of "\<lambda>req. Inr \<lparr>ok = False, status = 503, body_json = Inr (JObj [])\<rparr>"
              "''file:///cache/photo.jpg''" "JStr ''pro''"]
  by (simp add: claimed_raise_condition_def)

text \<open>
  The claim as worded fails in two places. It raises if and only if the response is
  not ok or the body has \<^verbatim>\<open>success\<close> equal to \<^verbatim>\<open>false\<close>: not so, since for an ok
  response whose body has no \<^verbatim>\<open>success\<close> property the call raises \<^verbatim>\<open>Scan failed\<close>,
  and when \<^verbatim>\<open>fetch\<close> rejects it raises with no response at all. What it returns is a
  self-consistent ScanResult: not so, since a body that announces three cards found
  and five matched and lists none is returned as it is.
\<close>

theorem scanCards_raises_iff_counterexample:
  "scanCards (\<lambda>req. Inr ok_without_success) ''file:///cache/photo.jpg'' JUndefined
     = Inl (Error ''Scan failed'')
   \<and> \<not> claimed_raise_condition (Inr ok_without_success)
   \<and> scanCards (\<lambda>req. Inl network_failure) ''file:///cache/photo.jpg'' JUndefined
     = Inl (Error ''Network error - cannot connect to backend. Check your API URL.'')
   \<and> \<not> claimed_raise_condition (Inl network_failure)
   \<and> scanCards (\<lambda>req. Inr ok_inconsistent) ''file:///cache/photo.jpg'' JUndefined
     = Inr inconsistent_body
   \<and> \<not> self_consistent_scan_result inconsistent_body"
  by (simp add: scanCards_def try_catch_def scanCards_rethrow_def ok_without_success_def
        success_is_false_def claimed_raise_condition_def network_failure_def
        includes_str_def sublist_Cons_right ok_inconsistent_def inconsistent_body_def
        self_consistent_scan_result_def read_prop_def)

section \<open>Properties of \<^verbatim>\<open>screens/ScanResultsScreen.js\<close>\<close>

lemma toUpperCase_Inr_iff: "(\<exists>u. toUpperCase v = Inr u) \<longleftrightarrow> (\<exists>s. v = JStr s)"
  by (cases v) simp_all

lemma truthy_matched_readable:
  "truthy (read_prop crd ''matched'') \<Longrightarrow> \<exists>n. get_prop crd ''card_number'' = Inr n"
  by (cases crd) (simp_all add: read_prop_def)

text \<open>
  Claim C8. For a card whose \<^verbatim>\<open>matched\<close> is truthy, \<^verbatim>\<open>renderCard\<close> returns a view
  only if \<^verbatim>\<open>set_code\<close> is a string: it calls \<^verbatim>\<open>card.set_code.toUpperCase()\<close> with
  no guard, and with \<^verbatim>\<open>set_code\<close> absent it throws a \<^verbatim>\<open>TypeError\<close>. The other
  optional fields are guarded: with \<^verbatim>\<open>image_url\<close>, \<^verbatim>\<open>rarity\<close>, \<^verbatim>\<open>prices\<close> and
  \<^verbatim>\<open>collector_number\<close> all absent and \<^verbatim>\<open>set_code\<close> a string the card renders, without
  those elements. Precisely, a matched card renders exactly when \<^verbatim>\<open>set_code\<close> is a
  string and \<^verbatim>\<open>rarity\<close> is falsy or a string. An unmatched card renders whatever
  its \<^verbatim>\<open>set_code\<close>.
\<close>

theorem renderCard_needs_set_code:
  "(truthy (read_prop crd ''matched'') \<longrightarrow>
      ((\<exists>v. renderCard selectedCards crd = Inr v) \<longleftrightarrow>
         (\<exists>s. read_prop crd ''set_code'' = JStr s)
         \<and> (truthy (read_prop crd ''rarity'') \<longrightarrow> (\<exists>s. read_prop crd ''rarity'' = JStr s))))
   \<and> (truthy (read_prop crd ''matched'') \<and> read_prop crd ''set_code'' = JUndefined \<longrightarrow>
        (\<exists>msg. renderCard selectedCards crd = Inl (TypeError msg)))
   \<and> (truthy (read_prop crd ''matched'') \<and> read_prop crd ''set_code'' = JStr s
        \<and> read_prop crd ''image_url'' = JUndefined \<and> read_prop crd ''rarity'' = JUndefined
        \<and> read_prop crd ''prices'' = JUndefined \<and> read_prop crd ''collector_number'' = JUndefined
        \<longrightarrow> (\<exists>v. renderCard selectedCards crd = Inr (MatchedView v)
                 \<and> set_code_text v = map upper_char s
                 \<and> image_uri v = None \<and> rarity_text v = None
                 \<and> prices_view v = None \<and> collector_text v = None))
   \<and> (get_prop crd ''card_number'' = Inr n \<and> \<not> truthy (read_prop crd ''matched'') \<longrightarrow>
        renderCard selectedCards crd = Inr (UnmatchedView n))"
proof -
  have p1: "(\<exists>v. renderCard selectedCards crd = Inr v) \<longleftrightarrow>
         (\<exists>s. read_prop crd ''set_code'' = JStr s)
         \<and> (truthy (read_prop crd ''rarity'') \<longrightarrow> (\<exists>s. read_prop crd ''rarity'' = JStr s))"
    if m: "truthy (read_prop crd ''matched'')"
  proof -
    obtain n where n: "get_prop crd ''card_number'' = Inr n"
      using truthy_matched_readable [OF m] by blast
    show ?thesis
    proof (cases "toUpperCase (read_prop crd ''set_code'')")
      case (Inl e)
      then have "\<forall>s. read_prop crd ''set_code'' \<noteq> JStr s" by auto
      with Inl n m show ?thesis by (simp add: renderCard_def)
    next
      case (Inr u)
      then have s: "\<exists>s. read_prop crd ''set_code'' = JStr s"
        using toUpperCase_Inr_iff by blast
      show ?thesis
      proof (cases "truthy (read_prop crd ''rarity'')")
        case False
        with Inr n m s show ?thesis by (simp add: renderCard_def)
      next
        case True
        show ?thesis
        proof (cases "toUpperCase (read_prop crd ''rarity'')")
          case (Inl e)
          then have "\<forall>s. read_prop crd ''rarity'' \<noteq> JStr s" by auto
          with Inl Inr n m s True show ?thesis by (simp add: renderCard_def)
        next
          case r: (Inr ru)
          then have "\<exists>s. read_prop crd ''rarity'' = JStr s"
            using toUpperCase_Inr_iff by blast
          with r Inr n m s True show ?thesis by (simp add: renderCard_def)
        qed
      qed
    qed
  qed
  have p2: "\<exists>msg. renderCard selectedCards crd = Inl (TypeError msg)"
    if m: "truthy (read_prop crd ''matched'')" and u: "read_prop crd ''set_code'' = JUndefined"
  proof -
    obtain n where n: "get_prop crd ''card_number'' = Inr n"
      using truthy_matched_readable [OF m] by blast
    with m u show ?thesis by (simp add: renderCard_def)
  qed
  have p3: "\<exists>v. renderCard selectedCards crd = Inr (MatchedView v)
                 \<and> set_code_text v = map upper_char s
                 \<and> image_uri v = None \<and> rarity_text v = None
                 \<and> prices_view v = None \<and> collector_text v = None"
    if m: "truthy (read_prop crd ''matched'')" and u: "read_prop crd ''set_code'' = JStr s"
      and o: "read_prop crd ''image_url'' = JUndefined" "read_prop crd ''rarity'' = JUndefined"
         "read_prop crd ''prices'' = JUndefined" "read_prop crd ''collector_number'' = JUndefined"
  proof -
    obtain n where n: "get_prop crd ''card_number'' = Inr n"
      using truthy_matched_readable [OF m] by blast
    with m u o show ?thesis by (simp add: renderCard_def guarded_def)
  qed
  have p4: "renderCard selectedCards crd = Inr (UnmatchedView n)"
    if "get_prop crd ''card_number'' = Inr n" "\<not> truthy (read_prop crd ''matched'')"
    using that by (simp add: renderCard_def)
  from p1 p2 p3 p4 show ?thesis by blast
qed

theorem renderCard_needs_set_code_witness:
  "truthy (read_prop matched_card_example ''matched'')
   \<and> (\<exists>v. renderCard [JNum 1] matched_card_example = Inr (MatchedView v)
          \<and> set_code_text v = ''LEA'' \<and> image_uri v = None \<and> rarity_text v = None
          \<and> prices_view v = None \<and> collector_text v = None)
   \<and> truthy (read_prop matched_card_without_set_code ''matched'')
   \<and> (\<exists>msg. renderCard [JNum 1] matched_card_without_set_code = Inl (TypeError msg))"
  using renderCard_needs_set_code
          [of matched_card_example "[JNum 1]" "''lea''" "JNum 1"]
        renderCard_needs_set_code
          [of matched_card_without_set_code "[JNum 1]" "''lea''" "JNum 1"]
  by (simp add: matched_card_example_def matched_card_without_set_code_def read_prop_def
        upper_char_def)

text \<open>
  Claim C9. Toggling a card number twice restores the selection as a set (the order of
  the list may change), so in particular the membership of that number. One toggle
  appends the number when it is absent and removes every occurrence of it when it is
  present, and it leaves the membership of every other number as it was.
\<close>

theorem toggleCardSelection_involution:
  "set (toggleCardSelection n (toggleCardSelection n prev)) = set prev
   \<and> (n \<in> set (toggleCardSelection n (toggleCardSelection n prev)) \<longleftrightarrow> n \<in> set prev)
   \<and> (n \<notin> set prev \<longrightarrow> toggleCardSelection n prev = prev @ [n])
   \<and> (n \<in> set prev \<longrightarrow> count_list (toggleCardSelection n prev) n = 0)
   \<and> (n \<in> set (toggleCardSelection n prev) \<longleftrightarrow> n \<notin> set prev)
   \<and> (m \<noteq> n \<longrightarrow> (m \<in> set (toggleCardSelection n prev) \<longleftrightarrow> m \<in> set prev))"
  by (auto simp: toggleCardSelection_def count_list_0_iff)

theorem toggleCardSelection_involution_witness:
  "toggleCardSelection (2::int) [1, 2, 3, 2] = [1, 3]
   \<and> toggleCardSelection (2::int) [1, 3] = [1, 3, 2]
   \<and> set (toggleCardSelection (2::int) (toggleCardSelection 2 [1, 2, 3, 2])) = set [1, 2, 3, 2]
   \<and> count_list (toggleCardSelection (2::int) [1, 2, 3, 2]) 2 = 0"
  using toggleCardSelection_involution [of "2::int" "[1, 2, 3, 2]" 1]
        toggleCardSelection_involution [of "2::int" "[1, 3]" 1]
  by (simp add: toggleCardSelection_def)

section \<open>Properties of the recognition pipeline as the specification describes it\<close>

lemma length_region_results [simp]: "length (region_results cfg index fps) = length fps"
  by (simp add: region_results_def)

lemma region_results_nth:
  "i < length fps \<Longrightarrow>
   region_results cfg index fps ! i =
     (case fps ! i of None \<Rightarrow> unmatched_result i | Some q \<Rightarrow> match_fingerprint cfg index i q)"
  by (simp add: region_results_def nth_enumerate_eq)

lemma region_index_unmatched [simp]: "region_index (unmatched_result i) = i"
  by (simp add: unmatched_result_def)

lemma region_index_match [simp]: "region_index (match_fingerprint cfg index i q) = i"
  by (simp add: match_fingerprint_def Let_def split: option.splits prod.splits)

lemma region_index_results:
  "i < length fps \<Longrightarrow> region_index (region_results cfg index fps ! i) = i"
  by (simp add: region_results_nth split: option.splits)

lemma matched_reference_unmatched: "matched (unmatched_result i) \<longleftrightarrow> reference (unmatched_result i) \<noteq> None"
  by (simp add: unmatched_result_def)

lemma matched_reference_match:
  "matched (match_fingerprint cfg index i q) \<longleftrightarrow> reference (match_fingerprint cfg index i q) \<noteq> None"
  by (simp add: match_fingerprint_def Let_def unmatched_result_def split: option.splits prod.splits)

lemma matched_reference_results:
  "m \<in> set (region_results cfg index fps) \<Longrightarrow> matched m \<longleftrightarrow> reference m \<noteq> None"
  by (auto simp: in_set_conv_nth region_results_nth matched_reference_unmatched matched_reference_match
        split: option.splits)

lemma enrich_number [simp]: "card_number (enrich cat m) = region_index m + 1"
  by (simp add: enrich_def split: option.splits enrichment_outcome.splits)

lemma enrich_result [simp]: "result (enrich cat m) = m"
  by (simp add: enrich_def split: option.splits enrichment_outcome.splits)

lemma scan_pipeline_Inr:
  "scan_pipeline vis cfg policy index cat img = Inr r \<longleftrightarrow>
     valid_image vis img
     \<and> r = \<lparr>success = True,
            cards_found = length (surviving_regions vis policy img),
            cards_matched = length (filter matched (region_results cfg index (surviving_regions vis policy img))),
            cards = map (enrich cat) (region_results cfg index (surviving_regions vis policy img))\<rparr>"
  by (auto simp: scan_pipeline_def Let_def)

lemma example_surviving: "surviving_regions example_vision CountAsUnmatched example_image = [Some 15, None, Some 14, Some 16776960]"
  by (simp add: surviving_regions_def example_vision_def example_image_def region_fingerprint_def)

lemma example_surviving_excluded: "surviving_regions example_vision ExcludeFromFound example_image = [Some 15, Some 14, Some 16776960]"
  by (simp add: surviving_regions_def example_vision_def example_image_def region_fingerprint_def)

lemma example_hamming: "hamming 15 15 = 0" "hamming 240 15 = 8" "hamming 15 14 = 1" "hamming 240 14 = 7"
  "hamming 15 16776960 = 20" "hamming 240 16776960 = 20"
  by code_simp+


lemma example_nearest:
  "nearest example_index 15 = Some (example_index ! 0, 0)"
  "nearest example_index 14 = Some (example_index ! 0, 1)"
  "nearest example_index 16776960 = Some (example_index ! 0, 20)"
  by (simp_all add: example_index_def example_hamming)

lemma example_results:
  "region_results example_config example_index [Some 15, None, Some 14, Some 16776960] =
     [\<lparr>region_index = 0, matched = True, reference = Some (example_index ! 0),
       confidence = 100, distance = Some 0\<rparr>,
      unmatched_result 1,
      \<lparr>region_index = 2, matched = True, reference = Some (example_index ! 0),
       confidence = 90, distance = Some 1\<rparr>,
      \<lparr>region_index = 3, matched = False, reference = None,
       confidence = 0, distance = Some 20\<rparr>]"
  by (simp add: region_results_def enumerate_eq_zip upt_rec match_fingerprint_def example_nearest
        confidence_of_def example_config_def Let_def)

lemma example_scan:
  "scan_pipeline example_vision example_config CountAsUnmatched example_index
     unreachable_catalog example_image =
   Inr \<lparr>success = True, cards_found = 4, cards_matched = 2,
        cards = map (enrich unreachable_catalog)
                  (region_results example_config example_index
                     [Some 15, None, Some 14, Some 16776960])\<rparr>"
  by (simp add: scan_pipeline_def Let_def example_surviving example_results unmatched_result_def)
    (simp add: example_vision_def example_image_def)







lemma surviving_regions_counted:
  "surviving_regions vis CountAsUnmatched img = map (region_fingerprint vis img) (detect vis img)"
  by (simp add: surviving_regions_def)

lemma surviving_regions_excluded:
  "surviving_regions vis ExcludeFromFound img =
     map (region_fingerprint vis img)
       (filter (\<lambda>region. region_fingerprint vis img region \<noteq> None) (detect vis img))"
  by (simp add: surviving_regions_def filter_map comp_def)

lemma scan_pipeline_cards_nth:
  assumes "scan_pipeline vis cfg policy index cat img = Inr r"
    and "surviving_regions vis policy img = map (region_fingerprint vis img) regions"
  shows "cards_found r = length regions
     \<and> map card_number (cards r) = map Suc [0..<length regions]
     \<and> (\<forall>i<length regions.
           cards r ! i =
             enrich cat (case region_fingerprint vis img (regions ! i) of
                           None \<Rightarrow> unmatched_result i
                         | Some q \<Rightarrow> match_fingerprint cfg index i q))"
proof -
  let ?fps = "surviving_regions vis policy img"
  from assms(1) have r: "cards r = map (enrich cat) (region_results cfg index ?fps)"
    "cards_found r = length ?fps"
    by (simp_all add: scan_pipeline_Inr)
  have len: "length ?fps = length regions" by (simp add: assms(2))
  have num: "map card_number (cards r) = map Suc [0..<length regions]"
    by (rule nth_equalityI) (simp_all add: r len region_index_results)
  have nth: "\<forall>i<length regions.
           cards r ! i =
             enrich cat (case region_fingerprint vis img (regions ! i) of
                           None \<Rightarrow> unmatched_result i
                         | Some q \<Rightarrow> match_fingerprint cfg index i q)"
    by (simp add: r len region_results_nth) (simp add: assms(2))
  from r len num nth show ?thesis by simp
qed

lemma scan_pipeline_numbering_independent:
  assumes "scan_pipeline vis cfg policy index cat img = Inr r"
    and "scan_pipeline vis cfg' policy index' cat' img = Inr r'"
  shows "map card_number (cards r) = map card_number (cards r')
     \<and> map (\<lambda>c. region_index (result c)) (cards r)
         = map (\<lambda>c. region_index (result c)) (cards r')"
proof -
  let ?fps = "surviving_regions vis policy img"
  from assms have r: "cards r = map (enrich cat) (region_results cfg index ?fps)"
    "cards r' = map (enrich cat') (region_results cfg' index' ?fps)"
    by (simp_all add: scan_pipeline_Inr)
  have "map card_number (cards r) = map card_number (cards r')"
    by (rule nth_equalityI) (simp_all add: r region_index_results)
  moreover have "map (\<lambda>c. region_index (result c)) (cards r)
         = map (\<lambda>c. region_index (result c)) (cards r')"
    by (rule nth_equalityI) (simp_all add: r region_index_results)
  ultimately show ?thesis by simp
qed

lemma hamming_self [simp]: "hamming a a = 0"
  by (simp add: hamming_def)

lemma hamming_le_bits: "hamming a b \<le> fingerprint_bits"
  unfolding hamming_def by (metis diff_zero length_filter_le length_upt)



text \<open>
  Whatever the mapping, an integer confidence that starts at 100 or below, strictly
  decreases over the distances up to \<open>m\<close> and is not negative there needs
  \<open>m \<le> 100\<close>: there are only 101 values to go through.
\<close>

lemma no_integer_scale_beyond_100:
  fixes c :: "nat \<Rightarrow> int"
  assumes top: "c 0 \<le> 100" and dec: "\<forall>d<m. c (Suc d) < c d" and nonneg: "0 \<le> c m"
  shows "m \<le> 100"
proof -
  have "d \<le> m \<Longrightarrow> c d \<le> 100 - int d" for d
  proof (induction d)
    case 0
    then show ?case using top by simp
  next
    case (Suc d)
    then have "c d \<le> 100 - int d" by simp
    moreover from Suc.prems dec have "c (Suc d) < c d" by simp
    ultimately show ?case by simp
  qed
  then have "c m \<le> 100 - int m" by simp
  with nonneg show ?thesis by simp
qed




text \<open>
  Claim C1 (on the pipeline modelled from the specification). The pipeline returns a
  ScanResult exactly for a well-formed image, and in every ScanResult it returns the
  length of \<open>cards\<close> equals \<open>cards_found\<close> and \<open>cards_matched\<close>, the number of cards
  whose result is matched, is at most \<open>cards_found\<close>, under either policy for failed
  regions.
\<close>

theorem scan_result_counts:
  "((\<exists>r. scan_pipeline vis cfg policy index cat img = Inr r) \<longleftrightarrow> valid_image vis img)
   \<and> (\<forall>r. scan_pipeline vis cfg policy index cat img = Inr r \<longrightarrow>
         length (cards r) = cards_found r
         \<and> cards_matched r \<le> cards_found r
         \<and> cards_matched r = length (filter (\<lambda>c. matched (result c)) (cards r)))"
proof -
  have a: "(\<exists>r. scan_pipeline vis cfg policy index cat img = Inr r) \<longleftrightarrow> valid_image vis img"
    by (simp add: scan_pipeline_Inr)
  have b: "length (cards r) = cards_found r
         \<and> cards_matched r \<le> cards_found r
         \<and> cards_matched r = length (filter (\<lambda>c. matched (result c)) (cards r))"
    if "scan_pipeline vis cfg policy index cat img = Inr r" for r
  proof -
    let ?rs = "region_results cfg index (surviving_regions vis policy img)"
    from that have r: "cards r = map (enrich cat) ?rs"
      "cards_found r = length (surviving_regions vis policy img)"
      "cards_matched r = length (filter matched ?rs)"
      by (simp_all add: scan_pipeline_Inr)
    have "length (filter matched ?rs) \<le> length ?rs" by (rule length_filter_le)
    moreover have "filter (\<lambda>c. matched (result c)) (map (enrich cat) ?rs) = map (enrich cat) (filter matched ?rs)"
      by (simp add: filter_map comp_def)
    ultimately show ?thesis using r by simp
  qed
  from a b show ?thesis by blast
qed

theorem scan_result_counts_witness:
  "\<exists>r. scan_pipeline example_vision example_config CountAsUnmatched example_index
          unreachable_catalog example_image = Inr r
       \<and> cards_found r = 4 \<and> cards_matched r = 2 \<and> length (cards r) = 4"
  using scan_result_counts
          [of example_vision example_config CountAsUnmatched example_index
              unreachable_catalog example_image]
        example_scan
  by simp

text \<open>
  Claim C2 (on the pipeline modelled from the specification). The regions reported
  are the regions the detector returned (\<open>detect\<close>), in its order: all of them when a
  failed region is counted as unmatched, and those that have a fingerprint, in the
  same relative order, when failed regions are excluded. In every ScanResult the card
  at position \<open>i\<close> (counted from 0) has card number \<open>i + 1\<close> and is the card built
  from the \<open>i\<close>-th reported region, so the card numbers are 1-based and follow the
  detection order. Two calls on the same image give the same card numbers and region
  indices even when they see another index snapshot, another configuration and other
  answers of the catalog (the detector, the rectifier and the fingerprint engine are
  functions of the image, as sections 4.1 to 4.3 describe them).
\<close>

theorem card_numbers_follow_detection_order:
  "(\<forall>r. scan_pipeline vis cfg CountAsUnmatched index cat img = Inr r \<longrightarrow>
       cards_found r = length (detect vis img)
       \<and> map card_number (cards r) = map Suc [0..<length (detect vis img)]
       \<and> (\<forall>i<length (detect vis img).
             cards r ! i =
               enrich cat (case region_fingerprint vis img (detect vis img ! i) of
                             None \<Rightarrow> unmatched_result i
                           | Some q \<Rightarrow> match_fingerprint cfg index i q)))
   \<and> (\<forall>r. scan_pipeline vis cfg ExcludeFromFound index cat img = Inr r \<longrightarrow>
       cards_found r
         = length (filter (\<lambda>region. region_fingerprint vis img region \<noteq> None) (detect vis img))
       \<and> map card_number (cards r) = map Suc [0..<cards_found r]
       \<and> (\<forall>i<cards_found r.
             cards r ! i =
               enrich cat
                 (case region_fingerprint vis img
                         (filter (\<lambda>region. region_fingerprint vis img region \<noteq> None)
                            (detect vis img) ! i) of
                    None \<Rightarrow> unmatched_result i
                  | Some q \<Rightarrow> match_fingerprint cfg index i q)))
   \<and> (\<forall>cfg' index' cat' r r'.
         scan_pipeline vis cfg policy index cat img = Inr r
         \<and> scan_pipeline vis cfg' policy index' cat' img = Inr r'
         \<longrightarrow> map card_number (cards r) = map card_number (cards r')
             \<and> map (\<lambda>c. region_index (result c)) (cards r)
                 = map (\<lambda>c. region_index (result c)) (cards r'))"
proof -
  have a: "cards_found r = length (detect vis img)
       \<and> map card_number (cards r) = map Suc [0..<length (detect vis img)]
       \<and> (\<forall>i<length (detect vis img).
             cards r ! i =
               enrich cat (case region_fingerprint vis img (detect vis img ! i) of
                             None \<Rightarrow> unmatched_result i
                           | Some q \<Rightarrow> match_fingerprint cfg index i q))"
    if "scan_pipeline vis cfg CountAsUnmatched index cat img = Inr r" for r
    using scan_pipeline_cards_nth [OF that surviving_regions_counted] .
  have b: "cards_found r
         = length (filter (\<lambda>region. region_fingerprint vis img region \<noteq> None) (detect vis img))
       \<and> map card_number (cards r) = map Suc [0..<cards_found r]
       \<and> (\<forall>i<cards_found r.
             cards r ! i =
               enrich cat
                 (case region_fingerprint vis img
                         (filter (\<lambda>region. region_fingerprint vis img region \<noteq> None)
                            (detect vis img) ! i) of
                    None \<Rightarrow> unmatched_result i
                  | Some q \<Rightarrow> match_fingerprint cfg index i q))"
    if "scan_pipeline vis cfg ExcludeFromFound index cat img = Inr r" for r
    using scan_pipeline_cards_nth [OF that surviving_regions_excluded] by simp
  from a b scan_pipeline_numbering_independent [of vis cfg policy index cat img]
  show ?thesis by blast
qed

theorem card_numbers_follow_detection_order_witness:
  "\<exists>r. scan_pipeline example_vision example_config CountAsUnmatched example_index
          unreachable_catalog example_image = Inr r
       \<and> detect example_vision example_image = [15, 0, 14, 16776960]
       \<and> map card_number (cards r) = [1, 2, 3, 4]
       \<and> cards r ! 2
           = enrich unreachable_catalog (match_fingerprint example_config example_index 2 14)"
proof -
  obtain r where run:
    "scan_pipeline example_vision example_config CountAsUnmatched example_index
       unreachable_catalog example_image = Inr r"
    using example_scan by simp
  have d: "detect example_vision example_image = [15, 0, 14, 16776960]"
    by (simp add: example_vision_def example_image_def)
  have f: "region_fingerprint example_vision example_image 14 = Some 14"
    by (simp add: region_fingerprint_def example_vision_def)
  from card_numbers_follow_detection_order
         [of example_vision example_config example_index unreachable_catalog example_image]
       run
  have n: "map card_number (cards r)
             = map Suc [0..<length (detect example_vision example_image)]"
    and c: "\<forall>i<length (detect example_vision example_image).
             cards r ! i =
               enrich unreachable_catalog
                 (case region_fingerprint example_vision example_image
                         (detect example_vision example_image ! i) of
                    None \<Rightarrow> unmatched_result i
                  | Some q \<Rightarrow> match_fingerprint example_config example_index i q)"
    by blast+
  from n have n': "map card_number (cards r) = [1, 2, 3, 4]"
    by (simp add: d upt_rec)
  from c have c': "cards r ! 2
           = enrich unreachable_catalog (match_fingerprint example_config example_index 2 14)"
    by (simp add: d f)
  show ?thesis
    by (rule exI [of _ r]) (intro conjI run d n' c')
qed

text \<open>
  Claim C5 (on the pipeline modelled from the specification). The request fails
  exactly when the image is malformed, whatever the catalog answers. In every
  ScanResult the match results are those of the Matcher, whatever the catalog
  answers; a matched card carries the name, set code and rarity of its
  ReferenceRecord, and when its enrichment call failed or timed out it has no prices.
\<close>

theorem enrichment_failure_keeps_match:
  "((\<exists>e. scan_pipeline vis cfg policy index cat img = Inl e) \<longleftrightarrow> \<not> valid_image vis img)
   \<and> (\<forall>r. scan_pipeline vis cfg policy index cat img = Inr r \<longrightarrow>
        map result (cards r) = region_results cfg index (surviving_regions vis policy img))
   \<and> (\<forall>r. scan_pipeline vis cfg policy index cat img = Inr r \<longrightarrow>
        (\<forall>c \<in> set (cards r). matched (result c) \<longrightarrow>
           (\<exists>rec. reference (result c) = Some rec
              \<and> card_name c = Some (display_name rec)
              \<and> card_set_code c = Some (ref_set_code rec)
              \<and> card_rarity c = Some (ref_rarity rec)
              \<and> (cat (region_index (result c)) (identity rec) \<in> {EnrichmentFailed, EnrichmentTimedOut}
                    \<longrightarrow> card_prices c = None))))"
proof -
  have a: "(\<exists>e. scan_pipeline vis cfg policy index cat img = Inl e) \<longleftrightarrow> \<not> valid_image vis img"
    by (auto simp: scan_pipeline_def Let_def)
  have b: "\<exists>rec. reference (result c) = Some rec
              \<and> card_name c = Some (display_name rec)
              \<and> card_set_code c = Some (ref_set_code rec)
              \<and> card_rarity c = Some (ref_rarity rec)
              \<and> (cat (region_index (result c)) (identity rec) \<in> {EnrichmentFailed, EnrichmentTimedOut}
                    \<longrightarrow> card_prices c = None)"
    if run: "scan_pipeline vis cfg policy index cat img = Inr r" and c: "c \<in> set (cards r)"
      and m: "matched (result c)" for r c
  proof -
    let ?rs = "region_results cfg index (surviving_regions vis policy img)"
    from run have "cards r = map (enrich cat) ?rs" by (simp add: scan_pipeline_Inr)
    with c obtain mr where mr: "mr \<in> set ?rs" "c = enrich cat mr" by auto
    with m have "matched mr" by simp
    with mr obtain rec where rec: "reference mr = Some rec"
      using matched_reference_results by blast
    with mr show ?thesis
      by (auto simp: enrich_def split: enrichment_outcome.splits)
  qed
  have k: "map result (cards r) = region_results cfg index (surviving_regions vis policy img)"
    if "scan_pipeline vis cfg policy index cat img = Inr r" for r
    using that by (simp add: scan_pipeline_Inr comp_def)
  from a b k show ?thesis by blast
qed

theorem enrichment_failure_keeps_match_witness:
  "\<exists>r. scan_pipeline example_vision example_config CountAsUnmatched example_index
          unreachable_catalog example_image = Inr r
       \<and> matched (result (cards r ! 0))
       \<and> card_name (cards r ! 0) = Some ''Lightning Bolt''
       \<and> card_set_code (cards r ! 0) = Some ''lea''
       \<and> card_rarity (cards r ! 0) = Some ''common''
       \<and> card_prices (cards r ! 0) = None"
proof -
  obtain r where run:
    "scan_pipeline example_vision example_config CountAsUnmatched example_index
       unreachable_catalog example_image = Inr r"
    and cs: "cards r = map (enrich unreachable_catalog)
                         (region_results example_config example_index
                            [Some 15, None, Some 14, Some 16776960])"
    using example_scan by simp
  have first: "cards r ! 0 \<in> set (cards r)"
    and m: "matched (result (cards r ! 0))"
    and ref: "reference (result (cards r ! 0)) = Some (example_index ! 0)"
    by (simp_all add: cs example_results)
  from enrichment_failure_keeps_match
         [of example_vision example_config CountAsUnmatched example_index
             unreachable_catalog example_image] run first m
  obtain rec where rec: "reference (result (cards r ! 0)) = Some rec"
    "card_name (cards r ! 0) = Some (display_name rec)"
    "card_set_code (cards r ! 0) = Some (ref_set_code rec)"
    "card_rarity (cards r ! 0) = Some (ref_rarity rec)"
    "unreachable_catalog (region_index (result (cards r ! 0))) (identity rec)
       \<in> {EnrichmentFailed, EnrichmentTimedOut} \<longrightarrow> card_prices (cards r ! 0) = None"
    by blast
  from rec ref have "rec = example_index ! 0" by simp
  with rec have
    "card_name (cards r ! 0) = Some ''Lightning Bolt''"
    "card_set_code (cards r ! 0) = Some ''lea''"
    "card_rarity (cards r ! 0) = Some ''common''"
    "card_prices (cards r ! 0) = None"
    by (simp_all add: example_index_def unreachable_catalog_def)
  with run m show ?thesis by blast
qed




end
